theory Spec2Isabelle
  imports Complex_Main "HOL-Library.AList" "HOL-Library.Char_ord" "HOL-Library.List_Lexorder"
    "HOL-Library.Multiset"
begin

section \<open>JSON values and Python dictionaries\<close>

text \<open>
  \<^verbatim>\<open>patients.json\<close> holds one JSON object that maps a patient ID to a JSON object of
  fields. \<^verbatim>\<open>json.load\<close> turns it into a \<^verbatim>\<open>dict\<close> of \<^verbatim>\<open>dict\<close>s, which keep the order in
  which keys were inserted; that order decides how \<^verbatim>\<open>sorted\<close> places records with equal
  keys, so a dictionary is an association list here:
  \<^item> \<^verbatim>\<open>k in d\<close> is \<open>map_of d k \<noteq> None\<close>, \<^verbatim>\<open>d[k]\<close> is the value \<open>map_of d k\<close> holds;
  \<^item> \<^verbatim>\<open>d[k] = v\<close> is \<open>AList.update k v d\<close>: an existing key keeps its place, a new one
    goes to the end;
  \<^item> \<^verbatim>\<open>del d[k]\<close> is \<open>AList.delete k d\<close>, \<^verbatim>\<open>d.values()\<close> is \<open>map snd d\<close>.

  Field values are the JSON scalars. \<^verbatim>\<open>json.load\<close> reads a number without fraction or
  exponent as an \<^verbatim>\<open>int\<close> and any other as a \<^verbatim>\<open>float\<close>; the two are kept apart, since
  pydantic treats them differently. The value of a \<^verbatim>\<open>float\<close> is a rational: every finite
  double is one, Python compares numbers by their exact values, and the service does no
  arithmetic on them. Nested arrays and objects, \<^verbatim>\<open>NaN\<close> and the infinities are outside
  the model.
\<close>

datatype jval = JNull | JBool bool | JInt int | JFloat rat | JStr string

type_synonym pydict = "(string \<times> jval) list"

type_synonym store = "(string \<times> pydict) list"

definition get :: "pydict \<Rightarrow> string \<Rightarrow> jval \<Rightarrow> jval" where
  \<comment> \<open>\<^verbatim>\<open>d.get(k, default)\<close>\<close>
  "get d k dflt = (case map_of d k of None \<Rightarrow> dflt | Some v \<Rightarrow> v)"

datatype error =
    HTTPException nat string
  | ValidationError
  | TypeError

datatype response = JSONResponse nat string

section \<open>The pydantic models\<close>

datatype gender = male | female | other

fun gender_str :: "gender \<Rightarrow> string" where
  "gender_str male = ''male''"
| "gender_str female = ''female''"
| "gender_str other = ''other''"

record Patient =
  id_str :: string
  name :: string
  city :: string
  age :: int
  gender :: gender
  height :: rat
  weight :: rat

definition Patient_valid :: "Patient \<Rightarrow> bool" where
  \<comment> \<open>the \<^verbatim>\<open>Field\<close> constraints of the class: \<^verbatim>\<open>gt=0, lt=120\<close> on age, \<^verbatim>\<open>gt=0\<close> on height
      and weight; every object of the class satisfies them\<close>
  "Patient_valid p \<longleftrightarrow> 0 < age p \<and> age p < 120 \<and> 0 < height p \<and> 0 < weight p"

text \<open>
  Every field of \<^verbatim>\<open>PatientUpdate\<close> is \<^verbatim>\<open>Optional\<close> with default \<^verbatim>\<open>None\<close>. pydantic also
  remembers which fields the request body supplied (\<^verbatim>\<open>model_fields_set\<close>): a field is
  either unset, or given with \<^verbatim>\<open>None\<close> (an explicit JSON \<^verbatim>\<open>null\<close>) or with a value.
\<close>

datatype 'a field = Unset | Given "'a option"

record PatientUpdate =
  name_upd :: "string field"
  city_upd :: "string field"
  age_upd :: "int field"
  gender_upd :: "gender field"
  height_upd :: "rat field"
  weight_upd :: "rat field"

fun field_gt0 :: "('a::{zero,ord}) field \<Rightarrow> bool" where
  "field_gt0 (Given (Some v)) = (0 < v)"
| "field_gt0 _ = True"

definition PatientUpdate_valid :: "PatientUpdate \<Rightarrow> bool" where
  \<comment> \<open>\<^verbatim>\<open>gt=0\<close> on age, height and weight; the patch has no upper bound on age\<close>
  "PatientUpdate_valid u \<longleftrightarrow>
     field_gt0 (age_upd u) \<and> field_gt0 (height_upd u) \<and> field_gt0 (weight_upd u)"

subsection \<open>Validation: \<^verbatim>\<open>Patient(**d)\<close>\<close>

text \<open>
  pydantic is a library outside the repository. What it does with an input of the
  declared type is fixed by the class: a \<^verbatim>\<open>str\<close> field takes a string, an \<^verbatim>\<open>int\<close> field
  an \<^verbatim>\<open>int\<close> or a \<^verbatim>\<open>float\<close> without fractional part, a \<^verbatim>\<open>float\<close> field a \<^verbatim>\<open>float\<close> as it
  is or an \<^verbatim>\<open>int\<close> converted to a double, the \<^verbatim>\<open>Literal\<close> one of its three strings;
  \<^verbatim>\<open>None\<close> and a missing key are rejected, keys that are no field of the class are
  ignored. pydantic also bounds the size of a \<^verbatim>\<open>float\<close> it takes for an \<^verbatim>\<open>int\<close>; the model
  does not, since the range of \<^verbatim>\<open>age\<close> refuses every value that large. What its lax mode
  converts from a value of another type (a numeric string, a boolean) is a parameter of
  the model.
\<close>

text \<open>
  Python converts an \<^verbatim>\<open>int\<close> to a \<^verbatim>\<open>float\<close> exactly when it has at most 53 significant
  bits and otherwise rounds it to 53 bits, to the nearest value and to the even one of
  two equally near; a result of \<open>2 ^ 1024\<close> or more is beyond the doubles, the conversion
  raises and pydantic rejects the input.
\<close>

function bit_length :: "int \<Rightarrow> nat" where
  "bit_length m = (if m \<le> 0 then 0 else Suc (bit_length (m div 2)))"
  by pat_completeness auto
termination
  by (relation "measure nat") auto

declare bit_length.simps [simp del]

definition int_to_double :: "int \<Rightarrow> rat option" where
  "int_to_double n =
     (let m = \<bar>n\<bar> in
      if m < 2 ^ 53 then Some (of_int n)
      else
        let e = bit_length m - 53;
            q = m div 2 ^ e;
            r = m mod 2 ^ e;
            q' = (if 2 ^ e < 2 * r \<or> (2 * r = 2 ^ e \<and> odd q) then q + 1 else q);
            v = q' * 2 ^ e
        in if v < 2 ^ 1024 then Some (of_int (sgn n * v)) else None)"

record lax_mode =
  lax_int :: "jval \<Rightarrow> int option"
  lax_float :: "jval \<Rightarrow> rat option"

fun validate_str :: "jval option \<Rightarrow> string option" where
  "validate_str (Some (JStr s)) = Some s"
| "validate_str _ = None"

fun validate_int :: "lax_mode \<Rightarrow> jval option \<Rightarrow> int option" where
  "validate_int lx None = None"
| "validate_int lx (Some JNull) = None"
| "validate_int lx (Some (JInt n)) = Some n"
| "validate_int lx (Some (JFloat q)) = (if of_int \<lfloor>q\<rfloor> = q then Some \<lfloor>q\<rfloor> else None)"
| "validate_int lx (Some v) = lax_int lx v"

fun validate_float :: "lax_mode \<Rightarrow> jval option \<Rightarrow> rat option" where
  "validate_float lx None = None"
| "validate_float lx (Some JNull) = None"
| "validate_float lx (Some (JFloat q)) = Some q"
| "validate_float lx (Some (JInt n)) = int_to_double n"
| "validate_float lx (Some v) = lax_float lx v"

fun validate_gender :: "jval option \<Rightarrow> gender option" where
  "validate_gender (Some (JStr s)) =
     (if s = ''male'' then Some male
      else if s = ''female'' then Some female
      else if s = ''other'' then Some other
      else None)"
| "validate_gender _ = None"

definition Patient_validate :: "lax_mode \<Rightarrow> pydict \<Rightarrow> Patient option" where
  "Patient_validate lx d =
     (case validate_str (map_of d ''id'') of None \<Rightarrow> None | Some i \<Rightarrow>
      case validate_str (map_of d ''name'') of None \<Rightarrow> None | Some n \<Rightarrow>
      case validate_str (map_of d ''city'') of None \<Rightarrow> None | Some c \<Rightarrow>
      case validate_int lx (map_of d ''age'') of None \<Rightarrow> None | Some a \<Rightarrow>
      case validate_gender (map_of d ''gender'') of None \<Rightarrow> None | Some g \<Rightarrow>
      case validate_float lx (map_of d ''height'') of None \<Rightarrow> None | Some h \<Rightarrow>
      case validate_float lx (map_of d ''weight'') of None \<Rightarrow> None | Some w \<Rightarrow>
        if 0 < a \<and> a < 120 \<and> 0 < h \<and> 0 < w
        then Some \<lparr>id_str = i, name = n, city = c, age = a, gender = g,
                   height = h, weight = w\<rparr>
        else None)"

subsection \<open>Serialisation: \<^verbatim>\<open>model_dump\<close>\<close>

text \<open>
  \<^verbatim>\<open>bmi\<close> and \<^verbatim>\<open>verdict\<close> are defined at module level, after both classes: they are
  not attributes of \<^verbatim>\<open>Patient\<close>, so the class has the seven declared fields and no
  computed one. \<^verbatim>\<open>create_patient\<close> dumps with \<^verbatim>\<open>exclude=["id"]\<close> and \<^verbatim>\<open>update_patient\<close>
  with \<^verbatim>\<open>exclude="id"\<close>; \<^verbatim>\<open>id\<close> is the one field name either of them contains.
\<close>

definition Patient_dump :: "Patient \<Rightarrow> pydict" where
  "Patient_dump p =
     [(''name'', JStr (name p)), (''city'', JStr (city p)),
      (''age'', JInt (age p)), (''gender'', JStr (gender_str (gender p))),
      (''height'', JFloat (height p)), (''weight'', JFloat (weight p))]"

fun dump_field :: "string \<Rightarrow> ('a \<Rightarrow> jval) \<Rightarrow> 'a field \<Rightarrow> pydict" where
  "dump_field k f Unset = []"
| "dump_field k f (Given None) = [(k, JNull)]"
| "dump_field k f (Given (Some v)) = [(k, f v)]"

definition PatientUpdate_dump :: "PatientUpdate \<Rightarrow> pydict" where
  \<comment> \<open>\<^verbatim>\<open>model_dump(exclude_unset=True)\<close>\<close>
  "PatientUpdate_dump u =
     dump_field ''name'' JStr (name_upd u) @
     dump_field ''city'' JStr (city_upd u) @
     dump_field ''age'' JInt (age_upd u) @
     dump_field ''gender'' (\<lambda>g. JStr (gender_str g)) (gender_upd u) @
     dump_field ''height'' JFloat (height_upd u) @
     dump_field ''weight'' JFloat (weight_upd u)"

subsection \<open>The module-level \<^verbatim>\<open>verdict\<close>\<close>

text \<open>
  The chain of comparisons of \<^verbatim>\<open>verdict\<close>, as a function of the BMI it reads. No
  endpoint reaches it. \<^verbatim>\<open>bmi\<close> itself divides and rounds in binary floating point and
  is not modelled.
\<close>

definition verdict :: "rat \<Rightarrow> string" where
  "verdict b =
     (if b < 18.5 then ''Underweight''
      else if b < 25 then ''Normal''
      else if b < 30 then ''Normal''
      else ''Obese'')"

section \<open>The store\<close>

text \<open>
  The state is the content of \<^verbatim>\<open>patients.json\<close>, a file that \<^verbatim>\<open>json.load\<close> reads as an
  object of objects (without such a file every handler raises in \<^verbatim>\<open>load_data\<close>, before
  it does anything). Every handler loads it at its start and the mutating ones write
  the whole of it back; a handler that raises before \<^verbatim>\<open>save_data\<close> leaves the file as it
  was, whatever it did to the dictionary in memory. \<^verbatim>\<open>update_patient\<close> writes the patch
  into the loaded record in place, and that dictionary is dropped when validation
  fails.
\<close>

definition load_data :: "store \<Rightarrow> store" where
  "load_data file = file"

definition save_data :: "store \<Rightarrow> store \<Rightarrow> store" where
  "save_data data file = data"

definition view :: "store \<Rightarrow> store" where
  "view file = load_data file"

definition view_patient :: "store \<Rightarrow> string \<Rightarrow> error + pydict" where
  "view_patient file patient_id =
     (let data = load_data file in
      case map_of data patient_id of
        Some r \<Rightarrow> Inr r
      | None \<Rightarrow> Inl (HTTPException 404 ''Patient not found''))"

definition create_patient :: "store \<Rightarrow> Patient \<Rightarrow> (error + response) \<times> store" where
  "create_patient file patient =
     (let data = load_data file in
      if map_of data (id_str patient) \<noteq> None
      then (Inl (HTTPException 400 ''Patient already exists''), file)
      else (Inr (JSONResponse 201 ''Patient created successfully''),
            save_data (AList.update (id_str patient) (Patient_dump patient) data) file))"

definition merge_items :: "pydict \<Rightarrow> pydict \<Rightarrow> pydict" where
  \<comment> \<open>\<^verbatim>\<open>for key, value in items: existing[key] = value\<close>\<close>
  "merge_items existing items = foldl (\<lambda>d (k, v). AList.update k v d) existing items"

definition merged_info :: "pydict \<Rightarrow> string \<Rightarrow> PatientUpdate \<Rightarrow> pydict" where
  \<comment> \<open>the dictionary \<^verbatim>\<open>update_patient\<close> hands to \<^verbatim>\<open>Patient(**...)\<close>\<close>
  "merged_info existing patient_id patient_update =
     AList.update ''id'' (JStr patient_id)
       (merge_items existing (PatientUpdate_dump patient_update))"

definition update_patient ::
  "lax_mode \<Rightarrow> store \<Rightarrow> string \<Rightarrow> PatientUpdate \<Rightarrow> (error + response) \<times> store" where
  "update_patient lx file patient_id patient_update =
     (let data = load_data file in
      case map_of data patient_id of
        None \<Rightarrow> (Inl (HTTPException 404 ''Patient not found''), file)
      | Some existing \<Rightarrow>
          (case Patient_validate lx (merged_info existing patient_id patient_update) of
             None \<Rightarrow> (Inl ValidationError, file)
           | Some p \<Rightarrow>
               (Inr (JSONResponse 200 ''Patient details updated successfully''),
                save_data (AList.update patient_id (Patient_dump p) data) file)))"

definition delete_patient :: "store \<Rightarrow> string \<Rightarrow> (error + response) \<times> store" where
  "delete_patient file patient_id =
     (let data = load_data file in
      if map_of data patient_id = None
      then (Inl (HTTPException 404 ''Patient not found''), file)
      else (Inr (JSONResponse 200 ''Patient deleted successfully''),
            save_data (AList.delete patient_id data) file))"

section \<open>Sorting\<close>

text \<open>
  \<^verbatim>\<open>sorted\<close> is stable, and with \<^verbatim>\<open>reverse=True\<close> it still keeps records with equal keys
  in their original order: it sorts the reversed list and reverses the result. Numbers
  (booleans among them) compare with numbers and strings with strings; any other
  comparison raises \<^verbatim>\<open>TypeError\<close>, and a list of at most one record is compared with
  nothing.
\<close>

fun is_num :: "jval \<Rightarrow> bool" where
  "is_num (JInt n) = True"
| "is_num (JFloat q) = True"
| "is_num (JBool b) = True"
| "is_num _ = False"

fun num_val :: "jval \<Rightarrow> rat" where
  \<comment> \<open>the value a number compares by; read only where \<open>is_num\<close> holds\<close>
  "num_val (JInt n) = of_int n"
| "num_val (JFloat q) = q"
| "num_val (JBool b) = (if b then 1 else 0)"
| "num_val _ = 0"

fun is_str :: "jval \<Rightarrow> bool" where
  "is_str (JStr s) = True"
| "is_str _ = False"

fun str_val :: "jval \<Rightarrow> string" where
  \<comment> \<open>read only where \<open>is_str\<close> holds\<close>
  "str_val (JStr s) = s"
| "str_val _ = []"

definition sorted_by :: "('a \<Rightarrow> 'k::linorder) \<Rightarrow> bool \<Rightarrow> 'a list \<Rightarrow> 'a list" where
  "sorted_by key reverse xs =
     (if reverse then rev (sort_key key (rev xs)) else sort_key key xs)"

definition sorted_py :: "'a list \<Rightarrow> ('a \<Rightarrow> jval) \<Rightarrow> bool \<Rightarrow> error + 'a list" where
  "sorted_py xs key reverse =
     (if list_all (\<lambda>x. is_num (key x)) xs
      then Inr (sorted_by (\<lambda>x. num_val (key x)) reverse xs)
      else if list_all (\<lambda>x. is_str (key x)) xs
      then Inr (sorted_by (\<lambda>x. str_val (key x)) reverse xs)
      else if length xs \<le> 1 then Inr xs
      else Inl TypeError)"

definition valid_feilds :: "string list" where
  "valid_feilds = [''height'', ''weight'', ''bmi'']"

definition sort_patients :: "store \<Rightarrow> string \<Rightarrow> string \<Rightarrow> error + pydict list" where
  "sort_patients file sort_by order =
     (if sort_by \<notin> set valid_feilds
      then Inl (HTTPException 404 ''Invalid field selected from ['height', 'weight', 'bmi']'')
      else if order \<notin> set [''asc'', ''desc'']
      then Inl (HTTPException 404 ''Invalid selction between asc and desc'')
      else
        let data = load_data file;
            sort_order = (if order = ''desc'' then True else False)
        in sorted_py (map snd data) (\<lambda>x. get x sort_by (JInt 0)) sort_order)"

section \<open>Properties of the store and example data\<close>

text \<open>
  The ranges the data model asks of a stored record, read off the dictionary as it is
  in the file.
\<close>

fun number :: "jval option \<Rightarrow> rat option" where
  "number (Some (JInt n)) = Some (of_int n)"
| "number (Some (JFloat q)) = Some q"
| "number _ = None"

definition record_ok :: "pydict \<Rightarrow> bool" where
  "record_ok r \<longleftrightarrow>
     (case number (map_of r ''height'') of Some h \<Rightarrow> 0 < h | None \<Rightarrow> False) \<and>
     (case number (map_of r ''weight'') of Some w \<Rightarrow> 0 < w | None \<Rightarrow> False) \<and>
     (case number (map_of r ''age'') of Some a \<Rightarrow> 0 < a \<and> a < 120 | None \<Rightarrow> False) \<and>
     (case map_of r ''gender'' of
        Some (JStr g) \<Rightarrow> g = ''male'' \<or> g = ''female'' \<or> g = ''other''
      | _ \<Rightarrow> False)"

definition store_ok :: "store \<Rightarrow> bool" where
  "store_ok file = list_all (\<lambda>(k, r). record_ok r) file"

text \<open>
  The stores the three mutating handlers can produce from a given one. A request that
  is refused leaves the store as it is, so every request is a step. \<^verbatim>\<open>create_patient\<close>
  receives an object of class \<^verbatim>\<open>Patient\<close>, which satisfies the constraints of the class.
\<close>

inductive reachable :: "lax_mode \<Rightarrow> store \<Rightarrow> store \<Rightarrow> bool" for lx :: lax_mode and file0 :: store
  where
    start: "reachable lx file0 file0"
  | create: "reachable lx file0 file \<Longrightarrow> Patient_valid patient \<Longrightarrow>
             reachable lx file0 (snd (create_patient file patient))"
  | update: "reachable lx file0 file \<Longrightarrow>
             reachable lx file0 (snd (update_patient lx file patient_id patient_update))"
  | delete: "reachable lx file0 file \<Longrightarrow>
             reachable lx file0 (snd (delete_patient file patient_id))"

text \<open>
  Example data. \<open>no_conversion\<close> is a lax mode that converts nothing: the examples hold
  values of the declared types only, which no conversion touches.
\<close>

definition no_conversion :: lax_mode where
  "no_conversion = \<lparr>lax_int = (\<lambda>_. None), lax_float = (\<lambda>_. None)\<rparr>"

definition alice :: Patient where
  "alice = \<lparr>id_str = ''P001'', name = ''Alice'', city = ''Pune'', age = 30, gender = female,
             height = 1.7, weight = 90\<rparr>"

definition bob :: Patient where
  "bob = \<lparr>id_str = ''P002'', name = ''Bob'', city = ''Delhi'', age = 41, gender = male,
           height = 1.7, weight = 60\<rparr>"

definition two_patients :: store where
  "two_patients = [(''P001'', Patient_dump alice), (''P002'', Patient_dump bob)]"

definition weight_only :: PatientUpdate where
  "weight_only = \<lparr>name_upd = Unset, city_upd = Unset, age_upd = Unset, gender_upd = Unset,
                   height_upd = Unset, weight_upd = Given (Some 80)\<rparr>"

definition age_150 :: PatientUpdate where
  "age_150 = \<lparr>name_upd = Unset, city_upd = Unset, age_upd = Given (Some 150),
               gender_upd = Unset, height_upd = Unset, weight_upd = Given (Some 80)\<rparr>"


definition city_null :: PatientUpdate where
  "city_null = \<lparr>name_upd = Unset, city_upd = Given None, age_upd = Unset,
                 gender_upd = Unset, height_upd = Unset, weight_upd = Given (Some 80)\<rparr>"


section \<open>Dictionaries, dumps and validation\<close>

lemma delete_as_filter: "AList.delete k al = filter (\<lambda>(k', r). k' \<noteq> k) al"
  by (induction al) auto

lemma dump_field_entry:
  "(k, v) \<in> set (dump_field k0 f x) \<Longrightarrow>
   k = k0 \<and> (x = Given None \<and> v = JNull \<or> (\<exists>a. x = Given (Some a) \<and> v = f a))"
  by (induction k0 f x rule: dump_field.induct) auto

lemma dump_field_keys: "map fst (dump_field k f x) = (if x = Unset then [] else [k])"
  by (induction k f x rule: dump_field.induct) auto

lemma PatientUpdate_dump_distinct: "distinct (map fst (PatientUpdate_dump u))"
  by (simp add: PatientUpdate_dump_def dump_field_keys)

lemma PatientUpdate_dump_entry:
  assumes "(k, v) \<in> set (PatientUpdate_dump u)"
  shows "k \<in> {''name'', ''city'', ''age'', ''gender'', ''height'', ''weight''}"
    and "v = JNull \<or>
         ((k = ''age'' \<longrightarrow> (\<exists>n. v = JInt n)) \<and>
          (k \<in> {''height'', ''weight''} \<longrightarrow> (\<exists>q. v = JFloat q)))"
  using assms unfolding PatientUpdate_dump_def
  by (auto dest!: dump_field_entry)

lemma map_of_merge_items:
  "map_of (merge_items existing items) = map_of existing ++ map_of (rev items)"
  unfolding merge_items_def
proof (induction items arbitrary: existing)
  case Nil
  show ?case by simp
next
  case (Cons kv items)
  obtain k v where kv: "kv = (k, v)" by (cases kv)
  show ?case
    by (rule ext) (simp add: kv Cons.IH update_conv' map_add_def split: option.splits)
qed

lemma map_of_rev_distinct: "distinct (map fst xs) \<Longrightarrow> map_of (rev xs) = map_of xs"
  by (subst map_of_inject_set) (simp_all add: rev_map [symmetric])

lemma merged_info_lookup:
  "k \<noteq> ''id'' \<Longrightarrow>
   map_of (merged_info existing patient_id u) k =
     (case map_of (PatientUpdate_dump u) k of None \<Rightarrow> map_of existing k | Some v \<Rightarrow> Some v)"
  by (simp add: merged_info_def update_conv' map_of_merge_items
        map_of_rev_distinct [OF PatientUpdate_dump_distinct] map_add_def)

lemma int_to_double_exact: "\<bar>n\<bar> < 2 ^ 53 \<Longrightarrow> int_to_double n = Some (of_int n)"
  by (simp add: int_to_double_def)

lemma int_to_double_rounds: "int_to_double 9007199254740993 = Some 9007199254740992"
  by code_simp

lemma Patient_validate_not_null:
  assumes "map_of d k = Some JNull"
    and "k \<in> {''name'', ''city'', ''age'', ''gender'', ''height'', ''weight''}"
  shows "Patient_validate lx d = None"
  using assms by (auto simp: Patient_validate_def split: option.splits)

lemmas upd_defs = PatientUpdate_dump_def merged_info_def merge_items_def Patient_validate_def

section \<open>Create\<close>

text \<open>
  C6. A create request whose ID is already a key of the store is refused with
  \<^verbatim>\<open>HTTPException(400, "Patient already exists")\<close>, and the store, the record under that ID
  with it, stays as it was.
\<close>

theorem create_duplicate_conflict:
  "map_of file (id_str patient) \<noteq> None \<Longrightarrow>
   create_patient file patient = (Inl (HTTPException 400 ''Patient already exists''), file)"
  by (simp add: create_patient_def load_data_def)

theorem create_duplicate_conflict_witness:
  "map_of two_patients (id_str (bob\<lparr>id_str := ''P001''\<rparr>)) \<noteq> None \<and>
   create_patient two_patients (bob\<lparr>id_str := ''P001''\<rparr>)
     = (Inl (HTTPException 400 ''Patient already exists''), two_patients) \<and>
   view_patient two_patients ''P001'' = Inr (Patient_dump alice)"
proof -
  have h: "map_of two_patients (id_str (bob\<lparr>id_str := ''P001''\<rparr>)) \<noteq> None"
    by (simp add: two_patients_def)
  have v: "view_patient two_patients ''P001'' = Inr (Patient_dump alice)"
    by (simp add: view_patient_def load_data_def two_patients_def)
  from h v create_duplicate_conflict [OF h] show ?thesis by simp
qed

text \<open>
  C9. After a successful create, the value stored under the patient's ID has exactly
  the keys name, city, age, gender, height and weight, in this order, and no key
  \<^verbatim>\<open>id\<close>: the ID is the key of the mapping only.
\<close>

theorem create_persists_six_fields:
  "create_patient file patient = (Inr resp, file') \<Longrightarrow>
   \<exists>r. map_of file' (id_str patient) = Some r \<and>
       map fst r = [''name'', ''city'', ''age'', ''gender'', ''height'', ''weight''] \<and>
       map_of r ''id'' = None"
  by (auto simp: create_patient_def load_data_def save_data_def update_conv' Patient_dump_def
        split: if_splits)

theorem create_persists_six_fields_witness:
  "create_patient [] alice
     = (Inr (JSONResponse 201 ''Patient created successfully''), [(''P001'', Patient_dump alice)]) \<and>
   (\<exists>r. map_of [(''P001'', Patient_dump alice)] (id_str alice) = Some r \<and>
        map fst r = [''name'', ''city'', ''age'', ''gender'', ''height'', ''weight''] \<and>
        map_of r ''id'' = None)"
proof -
  have h: "create_patient [] alice
     = (Inr (JSONResponse 201 ''Patient created successfully''), [(''P001'', Patient_dump alice)])"
    by (simp add: create_patient_def load_data_def save_data_def alice_def)
  from h create_persists_six_fields [OF h] show ?thesis by blast
qed

section \<open>Delete\<close>

text \<open>
  C7. Deleting an ID that is no key of the store is refused with
  \<^verbatim>\<open>HTTPException(404, "Patient not found")\<close> and leaves the store as it was. Deleting an
  ID that is a key succeeds; in the new store a fetch of that ID is refused with the
  same 404, a fetch of any other ID answers what it answered before, and the store is
  the old one without the entries of that ID.
\<close>

theorem delete_patient_not_found_or_removed:
  "(map_of file patient_id = None \<longrightarrow>
      delete_patient file patient_id = (Inl (HTTPException 404 ''Patient not found''), file)) \<and>
   (map_of file patient_id \<noteq> None \<longrightarrow>
      (\<exists>file'. delete_patient file patient_id
                 = (Inr (JSONResponse 200 ''Patient deleted successfully''), file') \<and>
               view_patient file' patient_id = Inl (HTTPException 404 ''Patient not found'') \<and>
               (\<forall>k. k \<noteq> patient_id \<longrightarrow> view_patient file' k = view_patient file k) \<and>
               file' = filter (\<lambda>(k, r). k \<noteq> patient_id) file))"
proof (intro conjI impI)
  assume "map_of file patient_id = None"
  then show "delete_patient file patient_id
               = (Inl (HTTPException 404 ''Patient not found''), file)"
    by (simp add: delete_patient_def load_data_def)
next
  assume present: "map_of file patient_id \<noteq> None"
  let ?file' = "AList.delete patient_id file"
  have "delete_patient file patient_id
          = (Inr (JSONResponse 200 ''Patient deleted successfully''), ?file')"
    using present by (simp add: delete_patient_def load_data_def save_data_def)
  moreover have "view_patient ?file' patient_id = Inl (HTTPException 404 ''Patient not found'')"
    by (simp add: view_patient_def load_data_def delete_conv')
  moreover have "\<forall>k. k \<noteq> patient_id \<longrightarrow> view_patient ?file' k = view_patient file k"
    by (simp add: view_patient_def load_data_def delete_conv')
  moreover have "?file' = filter (\<lambda>(k, r). k \<noteq> patient_id) file"
    by (rule delete_as_filter)
  ultimately show "\<exists>file'. delete_patient file patient_id
                 = (Inr (JSONResponse 200 ''Patient deleted successfully''), file') \<and>
               view_patient file' patient_id = Inl (HTTPException 404 ''Patient not found'') \<and>
               (\<forall>k. k \<noteq> patient_id \<longrightarrow> view_patient file' k = view_patient file k) \<and>
               file' = filter (\<lambda>(k, r). k \<noteq> patient_id) file"
    by blast
qed

theorem delete_patient_not_found_or_removed_witness:
  "map_of two_patients ''P009'' = None \<and>
   delete_patient two_patients ''P009''
     = (Inl (HTTPException 404 ''Patient not found''), two_patients) \<and>
   map_of two_patients ''P001'' \<noteq> None \<and>
   delete_patient two_patients ''P001''
     = (Inr (JSONResponse 200 ''Patient deleted successfully''), [(''P002'', Patient_dump bob)]) \<and>
   view_patient [(''P002'', Patient_dump bob)] ''P001''
     = Inl (HTTPException 404 ''Patient not found'') \<and>
   view_patient [(''P002'', Patient_dump bob)] ''P002'' = view_patient two_patients ''P002''"
proof -
  have absent: "map_of two_patients ''P009'' = None"
    and present: "map_of two_patients ''P001'' \<noteq> None"
    and rest: "filter (\<lambda>(k, r). k \<noteq> ''P001'') two_patients = [(''P002'', Patient_dump bob)]"
    by (simp_all add: two_patients_def)
  from delete_patient_not_found_or_removed [of two_patients "''P009''"] absent
  have 1: "delete_patient two_patients ''P009''
             = (Inl (HTTPException 404 ''Patient not found''), two_patients)"
    by blast
  from delete_patient_not_found_or_removed [of two_patients "''P001''"] present rest
  have 2: "delete_patient two_patients ''P001''
             = (Inr (JSONResponse 200 ''Patient deleted successfully''),
                [(''P002'', Patient_dump bob)]) \<and>
           view_patient [(''P002'', Patient_dump bob)] ''P001''
             = Inl (HTTPException 404 ''Patient not found'') \<and>
           view_patient [(''P002'', Patient_dump bob)] ''P002''
             = view_patient two_patients ''P002''"
    by auto
  from absent present 1 2 show ?thesis by blast
qed

section \<open>Update\<close>

text \<open>
  C4. When the merged record of an update does not validate as a \<^verbatim>\<open>Patient\<close>, the
  request is refused as a whole and the store stays exactly as it was before the
  request.
\<close>

theorem update_rejected_whole:
  "map_of file patient_id = Some existing \<Longrightarrow>
   Patient_validate lx (merged_info existing patient_id patient_update) = None \<Longrightarrow>
   update_patient lx file patient_id patient_update = (Inl ValidationError, file)"
  by (simp add: update_patient_def load_data_def)

theorem update_rejected_whole_witness:
  "map_of two_patients ''P001'' = Some (Patient_dump alice) \<and>
   Patient_validate no_conversion (merged_info (Patient_dump alice) ''P001'' age_150) = None \<and>
   PatientUpdate_valid age_150 \<and>
   update_patient no_conversion two_patients ''P001'' age_150
     = (Inl ValidationError, two_patients)"
proof -
  have h1: "map_of two_patients ''P001'' = Some (Patient_dump alice)"
    by (simp add: two_patients_def)
  have h2: "Patient_validate no_conversion (merged_info (Patient_dump alice) ''P001'' age_150)
              = None"
    by (simp add: upd_defs age_150_def Patient_dump_def alice_def)
  have h3: "PatientUpdate_valid age_150"
    by (simp add: PatientUpdate_valid_def age_150_def)
  from h1 h2 h3 update_rejected_whole [OF h1 h2] show ?thesis by blast
qed

text \<open>
  C10. A field the patch supplies with an explicit null is not treated as absent:
  the null replaces the stored value in the merged record, the merged record does not
  validate as a \<^verbatim>\<open>Patient\<close>, and the request is refused with the store unchanged. Only
  the fields the patch leaves out keep the stored value in the merged record.
\<close>

theorem update_explicit_null_rejected:
  assumes "map_of file patient_id = Some existing"
    and "(k, JNull) \<in> set (PatientUpdate_dump patient_update)"
  shows "map_of (merged_info existing patient_id patient_update) k = Some JNull \<and>
         Patient_validate lx (merged_info existing patient_id patient_update) = None \<and>
         update_patient lx file patient_id patient_update = (Inl ValidationError, file) \<and>
         (\<forall>k'. k' \<notin> fst ` set (PatientUpdate_dump patient_update) \<and> k' \<noteq> ''id'' \<longrightarrow>
               map_of (merged_info existing patient_id patient_update) k' = map_of existing k')"
proof -
  let ?merged = "merged_info existing patient_id patient_update"
  from assms(2) have field: "k \<in> {''name'', ''city'', ''age'', ''gender'', ''height'', ''weight''}"
    by (rule PatientUpdate_dump_entry)
  then have "k \<noteq> ''id''" by auto
  moreover from assms(2) have "map_of (PatientUpdate_dump patient_update) k = Some JNull"
    by (simp add: PatientUpdate_dump_distinct)
  ultimately have null: "map_of ?merged k = Some JNull"
    by (simp add: merged_info_lookup)
  then have invalid: "Patient_validate lx ?merged = None"
    using field by (rule Patient_validate_not_null)
  with assms(1) have refused:
    "update_patient lx file patient_id patient_update = (Inl ValidationError, file)"
    by (simp add: update_patient_def load_data_def)
  have "map_of ?merged k' = map_of existing k'"
    if "k' \<notin> fst ` set (PatientUpdate_dump patient_update)" and "k' \<noteq> ''id''" for k'
  proof -
    from that(1) have "map_of (PatientUpdate_dump patient_update) k' = None"
      by (simp add: map_of_eq_None_iff)
    with that(2) show ?thesis by (simp add: merged_info_lookup)
  qed
  with null invalid refused show ?thesis by blast
qed

theorem update_explicit_null_rejected_witness:
  "map_of two_patients ''P001'' = Some (Patient_dump alice) \<and>
   (''city'', JNull) \<in> set (PatientUpdate_dump city_null) \<and>
   map_of (merged_info (Patient_dump alice) ''P001'' city_null) ''city'' = Some JNull \<and>
   update_patient no_conversion two_patients ''P001'' city_null
     = (Inl ValidationError, two_patients) \<and>
   map_of (merged_info (Patient_dump alice) ''P001'' city_null) ''name'' = Some (JStr ''Alice'')"
proof -
  have h1: "map_of two_patients ''P001'' = Some (Patient_dump alice)"
    by (simp add: two_patients_def)
  have h2: "(''city'', JNull) \<in> set (PatientUpdate_dump city_null)"
    by (simp add: PatientUpdate_dump_def city_null_def)
  have h3: "''name'' \<notin> fst ` set (PatientUpdate_dump city_null) \<and> ''name'' \<noteq> ''id''"
    by (simp add: PatientUpdate_dump_def city_null_def)
  have h4: "map_of (Patient_dump alice) ''name'' = Some (JStr ''Alice'')"
    by (simp add: Patient_dump_def alice_def)
  from update_explicit_null_rejected [OF h1 h2, of no_conversion] h1 h2 h3 h4
  show ?thesis by simp
qed

lemma validate_str_Some: "validate_str x = Some s \<Longrightarrow> x = Some (JStr s)"
  by (cases x rule: validate_str.cases) auto

lemma validate_gender_Some: "validate_gender x = Some g \<Longrightarrow> x = Some (JStr (gender_str g))"
  by (cases x rule: validate_gender.cases) (auto split: if_splits)

lemma Patient_validate_fields:
  assumes "Patient_validate lx d = Some p"
  shows "map_of d ''name'' = Some (JStr (name p))"
    and "map_of d ''city'' = Some (JStr (city p))"
    and "map_of d ''gender'' = Some (JStr (gender_str (gender p)))"
    and "validate_int lx (map_of d ''age'') = Some (age p)"
    and "validate_float lx (map_of d ''height'') = Some (height p)"
    and "validate_float lx (map_of d ''weight'') = Some (weight p)"
    and "Patient_valid p"
  using assms unfolding Patient_validate_def Patient_valid_def
  by (auto split: option.splits if_splits dest: validate_str_Some validate_gender_Some)




text \<open>
  Every record that the handlers write is the dump of a \<^verbatim>\<open>Patient\<close> object: in a store
  that create, update and delete requests build from the empty one, every record has
  this layout.
\<close>

lemma dumped_update:
  assumes "\<forall>(k, r) \<in> set al. \<exists>p. r = Patient_dump p"
  shows "\<forall>(k, r) \<in> set (AList.update k0 (Patient_dump p0) al). \<exists>p. r = Patient_dump p"
  using assms by (induction al) auto

lemma dumped_delete:
  assumes "\<forall>(k, r) \<in> set al. \<exists>p. r = Patient_dump p"
  shows "\<forall>(k, r) \<in> set (AList.delete k0 al). \<exists>p. r = Patient_dump p"
  using assms by (induction al) auto

lemma reachable_records_dumped:
  assumes "reachable lx [] file"
  shows "\<forall>(k, r) \<in> set file. \<exists>p. r = Patient_dump p"
  using assms
proof (induction rule: reachable.induct)
  case start
  show ?case by simp
next
  case (create "file" patient)
  then show ?case
    by (simp add: create_patient_def load_data_def save_data_def dumped_update)
next
  case (update "file" patient_id patient_update)
  then show ?case
    by (simp add: update_patient_def load_data_def save_data_def dumped_update
          split: option.splits)
next
  case (delete "file" patient_id)
  then show ?case
    by (simp add: delete_patient_def load_data_def save_data_def dumped_delete)
qed

lemma reachable_fetch_dumped:
  assumes "reachable lx [] file" and "map_of file patient_id = Some existing"
  shows "\<exists>p. existing = Patient_dump p"
  using reachable_records_dumped [OF assms(1)] map_of_SomeD [OF assms(2)] by auto




section \<open>The ranges of stored records\<close>

lemma record_ok_Patient_dump: "Patient_valid p \<Longrightarrow> record_ok (Patient_dump p)"
  by (cases "gender p") (simp_all add: record_ok_def Patient_dump_def Patient_valid_def)

lemma store_ok_update: "store_ok file \<Longrightarrow> record_ok r \<Longrightarrow> store_ok (AList.update k r file)"
  unfolding store_ok_def by (induction "file") auto

lemma store_ok_delete: "store_ok file \<Longrightarrow> store_ok (AList.delete k file)"
  unfolding store_ok_def by (induction "file") auto

lemma store_ok_create_patient:
  "store_ok file \<Longrightarrow> Patient_valid patient \<Longrightarrow> store_ok (snd (create_patient file patient))"
  by (simp add: create_patient_def load_data_def save_data_def store_ok_update
        record_ok_Patient_dump)

lemma store_ok_update_patient:
  "store_ok file \<Longrightarrow> store_ok (snd (update_patient lx file patient_id patient_update))"
  by (auto simp: update_patient_def load_data_def save_data_def
        intro!: store_ok_update record_ok_Patient_dump Patient_validate_fields(7)
        split: option.splits)

lemma store_ok_delete_patient:
  "store_ok file \<Longrightarrow> store_ok (snd (delete_patient file patient_id))"
  by (simp add: delete_patient_def load_data_def save_data_def store_ok_delete)

text \<open>
  C5. From a store whose records all have height > 0, weight > 0, 0 < age < 120 and a
  gender among male, female and other, every store that create, update and delete
  requests lead to has the same property: no request persists a record outside these
  ranges.
\<close>

theorem reachable_store_ok:
  assumes "store_ok file0" and "reachable lx file0 file"
  shows "store_ok file"
  using assms(2)
proof (induction rule: reachable.induct)
  case start
  from assms(1) show ?case .
next
  case (create "file" patient)
  then show ?case by (simp add: store_ok_create_patient)
next
  case (update "file" patient_id patient_update)
  then show ?case by (simp add: store_ok_update_patient)
next
  case (delete "file" patient_id)
  then show ?case by (simp add: store_ok_delete_patient)
qed

theorem reachable_store_ok_witness:
  "store_ok [] \<and>
   reachable no_conversion [] [(''P001'', Patient_dump (alice\<lparr>weight := 80\<rparr>))] \<and>
   store_ok [(''P001'', Patient_dump (alice\<lparr>weight := 80\<rparr>))] \<and>
   record_ok (Patient_dump (alice\<lparr>weight := 80\<rparr>))"
proof -
  have empty: "store_ok []" by (simp add: store_ok_def)
  have valid: "Patient_valid alice" by (simp add: Patient_valid_def alice_def)
  have created: "snd (create_patient [] alice) = [(''P001'', Patient_dump alice)]"
    by (simp add: create_patient_def load_data_def save_data_def alice_def)
  have updated: "snd (update_patient no_conversion [(''P001'', Patient_dump alice)] ''P001''
                        weight_only)
                   = [(''P001'', Patient_dump (alice\<lparr>weight := 80\<rparr>))]"
    by (simp add: update_patient_def load_data_def save_data_def upd_defs weight_only_def
          Patient_dump_def alice_def)
  have "reachable no_conversion [] (snd (create_patient [] alice))"
    using reachable.start valid by (rule reachable.create)
  then have "reachable no_conversion []
               (snd (update_patient no_conversion (snd (create_patient [] alice)) ''P001''
                       weight_only))"
    by (rule reachable.update)
  then have reach: "reachable no_conversion []
                      [(''P001'', Patient_dump (alice\<lparr>weight := 80\<rparr>))]"
    by (simp add: created updated)
  from reachable_store_ok [OF empty reach] empty reach show ?thesis
    by (simp add: store_ok_def)
qed

section \<open>The two directions of a sort\<close>













section \<open>The derived fields\<close>

lemma verdict_table:
  "verdict b = (if b < 18.5 then ''Underweight'' else if b < 30 then ''Normal'' else ''Obese'')"
  by (simp add: verdict_def)

lemma sorted_by_ordered:
  fixes key :: "'a \<Rightarrow> 'k::linorder"
  shows "mset (sorted_by key reverse xs) = mset xs"
    and "\<not> reverse \<Longrightarrow> sorted (map key (sorted_by key reverse xs))"
    and "reverse \<Longrightarrow> sorted (rev (map key (sorted_by key reverse xs)))"
  by (simp_all add: sorted_by_def rev_map [symmetric])

lemma sort_patients_ordered:
  assumes "sort_patients file sort_by order = Inr out"
    and "list_all (\<lambda>x. is_num (get x sort_by (JInt 0))) (map snd file)"
  shows "mset out = mset (map snd file)"
    and "order = ''asc'' \<Longrightarrow> sorted (map (\<lambda>x. num_val (get x sort_by (JInt 0))) out)"
    and "order = ''desc'' \<Longrightarrow> sorted (rev (map (\<lambda>x. num_val (get x sort_by (JInt 0))) out))"
proof -
  let ?k = "\<lambda>x. num_val (get x sort_by (JInt 0))"
  from assms have out: "out = sorted_by ?k (order = ''desc'') (map snd file)"
    by (auto simp: sort_patients_def load_data_def sorted_py_def split: if_splits)
  show "mset out = mset (map snd file)"
    unfolding out by (rule sorted_by_ordered)
  show "sorted (map ?k out)" if "order = ''asc''"
    unfolding out using that by (intro sorted_by_ordered) simp
  show "sorted (rev (map ?k out))" if "order = ''desc''"
    unfolding out using that by (intro sorted_by_ordered) simp
qed

text \<open>
  C1 does not hold of the code. \<^verbatim>\<open>bmi\<close> and \<^verbatim>\<open>verdict\<close> are not part of the class, so the
  record that create persists and that a fetch returns has neither field: creating
  Alice in an empty store and fetching her gives the six stored fields only.
\<close>

theorem created_record_has_no_bmi:
  "create_patient [] alice
     = (Inr (JSONResponse 201 ''Patient created successfully''), [(''P001'', Patient_dump alice)]) \<and>
   view_patient [(''P001'', Patient_dump alice)] ''P001'' = Inr (Patient_dump alice) \<and>
   view [(''P001'', Patient_dump alice)] = [(''P001'', Patient_dump alice)] \<and>
   map fst (Patient_dump alice) = [''name'', ''city'', ''age'', ''gender'', ''height'', ''weight''] \<and>
   map_of (Patient_dump alice) ''bmi'' = None \<and>
   map_of (Patient_dump alice) ''verdict'' = None"
  by (simp add: create_patient_def view_patient_def view_def load_data_def save_data_def
        Patient_dump_def alice_def)

text \<open>
  C2 does not hold of the code. \<^verbatim>\<open>sort_patients\<close> returns the stored dictionaries as
  they are, without \<^verbatim>\<open>bmi\<close> and \<^verbatim>\<open>verdict\<close>; sorting by \<^verbatim>\<open>bmi\<close> then gives every record
  the key 0 and returns the store's order: Alice, whose weight over squared height is
  the larger, comes before Bob in ascending order.
\<close>

theorem sort_by_bmi_keeps_store_order:
  "sort_patients two_patients ''bmi'' ''asc'' = Inr [Patient_dump alice, Patient_dump bob] \<and>
   map_of (Patient_dump alice) ''bmi'' = None \<and>
   map_of (Patient_dump bob) ''bmi'' = None \<and>
   weight bob / (height bob)\<^sup>2 < weight alice / (height alice)\<^sup>2"
  by (simp add: sort_patients_def valid_feilds_def load_data_def sorted_py_def sorted_by_def
        get_def two_patients_def Patient_dump_def alice_def bob_def Let_def power2_eq_square)

end
